theory Spec2Isabelle
  imports Complex_Main "HOL-Library.Char_ord" "HOL-Library.List_Lexorder" "HOL-Library.AList"
begin

section \<open>Strings\<close>

text \<open>
  Python strings are modelled as Isabelle strings. The character classes below are the
  ASCII part of what \<^verbatim>\<open>str.lower\<close>, \<^verbatim>\<open>str.strip\<close> and the regular-expression classes
  \<^verbatim>\<open>\w\<close> and \<^verbatim>\<open>\s\<close> use in Python 3: the model covers ASCII text, and a character outside
  ASCII is treated as a symbol (no letter, no digit, no whitespace, unchanged by lower).
\<close>

definition is_upper :: "char \<Rightarrow> bool" where
  "is_upper c \<longleftrightarrow> CHR ''A'' \<le> c \<and> c \<le> CHR ''Z''"

definition is_lower :: "char \<Rightarrow> bool" where
  "is_lower c \<longleftrightarrow> CHR ''a'' \<le> c \<and> c \<le> CHR ''z''"

definition is_digit :: "char \<Rightarrow> bool" where
  "is_digit c \<longleftrightarrow> CHR ''0'' \<le> c \<and> c \<le> CHR ''9''"

definition lower_char :: "char \<Rightarrow> char" where
  "lower_char c = (if is_upper c then char_of (of_char c + (32::nat)) else c)"

definition str_lower :: "string \<Rightarrow> string" where
  "str_lower s = map lower_char s"

text \<open>Whitespace: the codes 9 to 13 and 28 to 32.\<close>

definition is_space :: "char \<Rightarrow> bool" where
  "is_space c \<longleftrightarrow> (CHR 0x09 \<le> c \<and> c \<le> CHR 0x0D) \<or> (CHR 0x1C \<le> c \<and> c \<le> CHR '' '')"

text \<open>The class \<^verbatim>\<open>\w\<close>: letters, digits and the underscore.\<close>

definition is_word :: "char \<Rightarrow> bool" where
  "is_word c \<longleftrightarrow> is_upper c \<or> is_lower c \<or> is_digit c \<or> c = CHR ''_''"

text \<open>\<^verbatim>\<open>s.replace(c, "")\<close> for a one-character \<^verbatim>\<open>c\<close>.\<close>

definition str_delete :: "char \<Rightarrow> string \<Rightarrow> string" where
  "str_delete c s = filter (\<lambda>x. x \<noteq> c) s"

text \<open>\<^verbatim>\<open>s.strip()\<close>: whitespace removed from both ends.\<close>

definition str_strip :: "string \<Rightarrow> string" where
  "str_strip s = rev (dropWhile is_space (rev (dropWhile is_space s)))"

text \<open>\<^verbatim>\<open>sub in s\<close> on strings.\<close>

fun str_contains :: "string \<Rightarrow> string \<Rightarrow> bool" where
  "str_contains sub [] = (sub = [])"
| "str_contains sub (c # cs) = (take (length sub) (c # cs) = sub \<or> str_contains sub cs)"

section \<open>JSON-like values\<close>

text \<open>
  A Python float is a finite value or one of the three special values. A finite value is
  kept as the rational it stands for: arithmetic on finite values is exact here, which is
  what IEEE-754 binary64 computes whenever operands and result are representable (as for
  \<^verbatim>\<open>0.5 * 43560\<close> and \<^verbatim>\<open>21780 / 43560\<close>); rounding is not modelled. What is modelled exactly is
  the range: a magnitude of at least \<open>2^1024 - 2^970\<close> rounds to infinity.
\<close>

datatype pyfloat = Finite rat | PosInf | NegInf | NaN

datatype json =
    JNull
  | JBool bool
  | JInt int
  | JFloat pyfloat
  | JStr string
  | JArr "json list"
  | JObj "(string \<times> json) list"

text \<open>The exceptions the normalisation code can raise.\<close>

datatype error = OverflowError | ValueError

section \<open>Recursive key search (normalize.py)\<close>

text \<open>
  \<^verbatim>\<open>_search(obj, predicate)\<close>. Python's \<^verbatim>\<open>None\<close> is \<^const>\<open>JNull\<close>: the function returns it both
  when nothing matches and when the matching key is bound to \<^verbatim>\<open>None\<close>. \<open>search_items\<close> is the
  loop over \<^verbatim>\<open>obj.items()\<close>, \<open>search_elems\<close> the loop over a sequence.
\<close>

fun search :: "json \<Rightarrow> (string \<Rightarrow> bool) \<Rightarrow> json"
  and search_items :: "(string \<times> json) list \<Rightarrow> (string \<Rightarrow> bool) \<Rightarrow> json"
  and search_elems :: "json list \<Rightarrow> (string \<Rightarrow> bool) \<Rightarrow> json" where
  "search (JObj kvs) p = search_items kvs p"
| "search (JArr xs) p = search_elems xs p"
| "search JNull p = JNull"
| "search (JBool b) p = JNull"
| "search (JInt i) p = JNull"
| "search (JFloat f) p = JNull"
| "search (JStr s) p = JNull"
| "search_items [] p = JNull"
| "search_items ((k, v) # rest) p =
     (if p k then v
      else (let result = search v p in
            if result \<noteq> JNull then result else search_items rest p))"
| "search_elems [] p = JNull"
| "search_elems (item # rest) p =
     (let result = search item p in
      if result \<noteq> JNull then result else search_elems rest p)"

text \<open>\<^verbatim>\<open>_search_keys(obj, keys)\<close>.\<close>

definition search_keys :: "json \<Rightarrow> string list \<Rightarrow> json" where
  "search_keys obj keys =
     (let keyset = set (map str_lower keys)
      in search obj (\<lambda>k. str_lower (str_delete CHR ''-'' (str_delete CHR ''_'' k)) \<in> keyset))"

text \<open>Every key that occurs anywhere in a tree (used to state properties of the search).\<close>

fun keys_of :: "json \<Rightarrow> string list"
  and keys_of_items :: "(string \<times> json) list \<Rightarrow> string list"
  and keys_of_elems :: "json list \<Rightarrow> string list" where
  "keys_of (JObj kvs) = keys_of_items kvs"
| "keys_of (JArr xs) = keys_of_elems xs"
| "keys_of JNull = []"
| "keys_of (JBool b) = []"
| "keys_of (JInt i) = []"
| "keys_of (JFloat f) = []"
| "keys_of (JStr s) = []"
| "keys_of_items [] = []"
| "keys_of_items ((k, v) # rest) = k # keys_of v @ keys_of_items rest"
| "keys_of_elems [] = []"
| "keys_of_elems (item # rest) = keys_of item @ keys_of_elems rest"

section \<open>Amenity vocabulary (amenities.py)\<close>

text \<open>
  \<^verbatim>\<open>re.sub(r"\s+", " ", text)\<close>: every maximal run of whitespace becomes one space.
\<close>

function collapse_ws :: "string \<Rightarrow> string" where
  "collapse_ws [] = []"
| "collapse_ws (c # cs) =
     (if is_space c then CHR '' '' # collapse_ws (dropWhile is_space cs)
      else c # collapse_ws cs)"
  by pat_completeness auto
termination
  by (relation "measure length") (auto simp: length_dropWhile_le less_Suc_eq_le)

text \<open>
  \<^verbatim>\<open>_sanitize(text)\<close>: \<^verbatim>\<open>re.sub(r"[^\w\s]", " ", text.lower())\<close>, then the whitespace runs are
  collapsed and the ends stripped.
\<close>

definition sanitize :: "string \<Rightarrow> string" where
  "sanitize text =
     (let text = map (\<lambda>c. if is_word c \<or> is_space c then c else CHR '' '') (str_lower text)
      in str_strip (collapse_ws text))"

text \<open>
  A vocabulary maps canonical labels to synonym lists; the reverse index maps sanitized
  text to canonical labels. Both are Python dictionaries, kept as association lists in
  insertion order; \<^const>\<open>AList.update\<close> is the dictionary assignment (an existing key keeps
  its place, a new key goes to the end).
\<close>

type_synonym vocab = "(string \<times> string list) list"

definition reverse_vocab :: "vocab \<Rightarrow> (string \<times> string) list" where
  "reverse_vocab vocab =
     fold (\<lambda>(canon, syns) reverse.
             let canonical = str_strip canon;
                 reverse = AList.update (sanitize canonical) canonical reverse
             in fold (\<lambda>syn reverse. AList.update (sanitize syn) canonical reverse) syns reverse)
          vocab []"

text \<open>
  \<^verbatim>\<open>re.search(rf"\b{re.escape(syn)}\b", text)\<close>: the literal \<open>syn\<close> occurs at some position
  with a word boundary on each side. A word boundary is a position where exactly one of
  the two neighbouring characters is a word character (the ends of the text count as
  non-word).
\<close>

definition word_boundary :: "string \<Rightarrow> nat \<Rightarrow> bool" where
  "word_boundary text i \<longleftrightarrow>
     (0 < i \<and> i \<le> length text \<and> is_word (text ! (i - 1)))
       \<noteq> (i < length text \<and> is_word (text ! i))"

definition match_at :: "string \<Rightarrow> string \<Rightarrow> nat \<Rightarrow> bool" where
  "match_at syn text i \<longleftrightarrow>
     word_boundary text i \<and> i + length syn \<le> length text
     \<and> take (length syn) (drop i text) = syn \<and> word_boundary text (i + length syn)"

definition search_word :: "string \<Rightarrow> string \<Rightarrow> bool" where
  "search_word syn text = list_ex (match_at syn text) [0 ..< Suc (length text)]"

text \<open>
  \<^verbatim>\<open>normalize_amenities(raw_tokens, vocab, description)\<close>. The set \<^verbatim>\<open>found\<close> is a duplicate-free
  list (\<^const>\<open>List.insert\<close> adds an element that is not yet there); \<^verbatim>\<open>sorted(found)\<close> is
  \<^const>\<open>sort\<close> under the lexicographic order of strings by character code.
\<close>

definition normalize_amenities :: "string list \<Rightarrow> vocab \<Rightarrow> string option \<Rightarrow> string list" where
  "normalize_amenities raw_tokens vocab description =
     (let reverse = reverse_vocab vocab;
          found = fold (\<lambda>token found.
                          let key = sanitize token in
                          case map_of reverse key of
                            Some canon \<Rightarrow> List.insert canon found
                          | None \<Rightarrow> found)
                       raw_tokens [];
          found = (case description of
                     None \<Rightarrow> found
                   | Some d \<Rightarrow>
                       if d = [] then found
                       else (let text = sanitize d in
                             fold (\<lambda>(syn, canon) found.
                                     if search_word syn text then List.insert canon found
                                     else found)
                                  reverse found))
      in sort found)"

section \<open>Value coercion (normalize.py)\<close>

text \<open>
  A real number of magnitude \<open>2^1024 - 2^970\<close> or more has no nearest finite double:
  \<^verbatim>\<open>float("9" * 400)\<close> is \<^verbatim>\<open>inf\<close>, and \<^verbatim>\<open>float(10 ** 400)\<close> raises \<^verbatim>\<open>OverflowError\<close>.
\<close>

definition float_bound :: rat where
  "float_bound = 2 ^ 1024 - 2 ^ 970"

text \<open>The float nearest to a rational, as far as the range goes.\<close>

definition round_float :: "rat \<Rightarrow> pyfloat" where
  "round_float q =
     (if float_bound \<le> q then PosInf else if q \<le> - float_bound then NegInf else Finite q)"

text \<open>\<^verbatim>\<open>float(n)\<close> for an integer \<^verbatim>\<open>n\<close>.\<close>

definition float_of_int :: "int \<Rightarrow> error + pyfloat" where
  "float_of_int n =
     (if float_bound \<le> \<bar>of_int n\<bar> then Inl OverflowError else Inr (Finite (of_int n)))"

text \<open>\<^verbatim>\<open>int(x)\<close> for a float \<^verbatim>\<open>x\<close>: truncation toward zero; infinities and NaN raise.\<close>

definition int_of_float :: "pyfloat \<Rightarrow> error + int" where
  "int_of_float x =
     (case x of
        Finite q \<Rightarrow> Inr (if 0 \<le> q then \<lfloor>q\<rfloor> else \<lceil>q\<rceil>)
      | PosInf \<Rightarrow> Inl OverflowError
      | NegInf \<Rightarrow> Inl OverflowError
      | NaN \<Rightarrow> Inl ValueError)"

definition digit_val :: "char \<Rightarrow> int" where
  "digit_val c = of_char c - of_char CHR ''0''"

definition digits_val :: "string \<Rightarrow> int" where
  "digits_val ds = foldl (\<lambda>n c. 10 * n + digit_val c) 0 ds"

text \<open>
  \<^verbatim>\<open>float(cleaned)\<close> for a string of digits, dots and minus signs (all that the cleaning
  leaves): an optional leading minus, then digits with at most one dot and at least one
  digit. \<open>None\<close> is the \<^verbatim>\<open>ValueError\<close> that \<^verbatim>\<open>parse_float\<close> catches.
\<close>

definition float_of_str :: "string \<Rightarrow> pyfloat option" where
  "float_of_str cleaned =
     (let neg = (cleaned \<noteq> [] \<and> hd cleaned = CHR ''-'');
          body = (if neg then tl cleaned else cleaned);
          ip = takeWhile is_digit body;
          rest = dropWhile is_digit body;
          fp = (if rest = [] then [] else tl rest);
          mag = (of_int (digits_val (ip @ fp)) :: rat) / 10 ^ length fp
      in if (rest = [] \<or> hd rest = CHR ''.'') \<and> list_all is_digit fp \<and> (ip \<noteq> [] \<or> fp \<noteq> [])
         then Some (round_float (if neg then - mag else mag))
         else None)"

text \<open>\<^verbatim>\<open>parse_float(val)\<close>. A Python \<^verbatim>\<open>bool\<close> is an \<^verbatim>\<open>int\<close>.\<close>

definition parse_float :: "json \<Rightarrow> error + pyfloat option" where
  "parse_float val =
     (case val of
        JNull \<Rightarrow> Inr None
      | JBool b \<Rightarrow> Inr (Some (Finite (if b then 1 else 0)))
      | JInt n \<Rightarrow> map_sum id Some (float_of_int n)
      | JFloat x \<Rightarrow> Inr (Some x)
      | JStr s \<Rightarrow>
          (let cleaned = filter (\<lambda>c. is_digit c \<or> c = CHR ''.'' \<or> c = CHR ''-'')
                           (str_delete CHR '','' s)
           in Inr (float_of_str cleaned))
      | JArr xs \<Rightarrow> Inr None
      | JObj kvs \<Rightarrow> Inr None)"

text \<open>\<^verbatim>\<open>parse_int(val)\<close>.\<close>

definition parse_int :: "json \<Rightarrow> error + int option" where
  "parse_int val =
     (case parse_float val of
        Inl e \<Rightarrow> Inl e
      | Inr None \<Rightarrow> Inr None
      | Inr (Some num) \<Rightarrow> map_sum id Some (int_of_float num))"

section \<open>Field extractors (normalize.py)\<close>

text \<open>Sequencing of computations that may raise.\<close>

definition bind_raise :: "error + 'a \<Rightarrow> ('a \<Rightarrow> error + 'b) \<Rightarrow> error + 'b" where
  "bind_raise m f = (case m of Inl e \<Rightarrow> Inl e | Inr x \<Rightarrow> f x)"

text \<open>Truth value of a Python object; \<^verbatim>\<open>a or b\<close>.\<close>

definition truthy :: "json \<Rightarrow> bool" where
  "truthy v =
     (case v of
        JNull \<Rightarrow> False
      | JBool b \<Rightarrow> b
      | JInt n \<Rightarrow> n \<noteq> 0
      | JFloat x \<Rightarrow> x \<noteq> Finite 0
      | JStr s \<Rightarrow> s \<noteq> []
      | JArr xs \<Rightarrow> xs \<noteq> []
      | JObj kvs \<Rightarrow> kvs \<noteq> [])"

definition py_or :: "json \<Rightarrow> json \<Rightarrow> json" where
  "py_or a b = (if truthy a then a else b)"

text \<open>
  \<^verbatim>\<open>str(v)\<close>: a string is itself; the text that Python prints for any other object is
  the parameter \<open>pyrepr\<close>.
\<close>

definition py_str :: "(json \<Rightarrow> string) \<Rightarrow> json \<Rightarrow> string" where
  "py_str pyrepr v = (case v of JStr s \<Rightarrow> s | _ \<Rightarrow> pyrepr v)"

definition parse_bedrooms :: "json \<Rightarrow> error + pyfloat option" where
  "parse_bedrooms d = (let val = search_keys d [''beds'', ''bedrooms'', ''bed''] in parse_float val)"

definition parse_bathrooms :: "json \<Rightarrow> error + pyfloat option" where
  "parse_bathrooms d =
     (let val = search_keys d [''baths'', ''bathrooms'', ''bath''] in parse_float val)"

definition parse_sqft :: "json \<Rightarrow> error + int option" where
  "parse_sqft d =
     (let keys = [''sqft'', ''livingarea'', ''livingareasqft'', ''finishedsqft'',
                  ''finishedarea'', ''grosslivingsqft''];
          val = search d (\<lambda>k. list_ex (\<lambda>key. str_contains key
                                  (str_lower (str_delete CHR ''_'' k))) keys)
      in parse_int val)"

text \<open>The two key predicates of \<^verbatim>\<open>parse_lot_sizes\<close>.\<close>

definition lot_sqft_key :: "string \<Rightarrow> bool" where
  "lot_sqft_key k \<longleftrightarrow>
     str_contains ''lot'' (str_lower k)
     \<and> list_ex (\<lambda>s. str_contains s (str_lower k)) [''sqft'', ''area'']"

definition acre_key :: "string \<Rightarrow> bool" where
  "acre_key k \<longleftrightarrow> str_contains ''acre'' (str_lower k)"

text \<open>
  \<^verbatim>\<open>lot_size_acres * 43560\<close> (a float times a positive integer constant) and
  \<^verbatim>\<open>lot_size_sqft / 43560\<close> (true division of integers).
\<close>

definition float_times :: "pyfloat \<Rightarrow> int \<Rightarrow> pyfloat" where
  "float_times x k =
     (case x of Finite q \<Rightarrow> round_float (q * of_int k) | PosInf \<Rightarrow> PosInf
      | NegInf \<Rightarrow> NegInf | NaN \<Rightarrow> NaN)"

definition int_true_div :: "int \<Rightarrow> int \<Rightarrow> error + pyfloat" where
  "int_true_div n k =
     (let q = (of_int n :: rat) / of_int k
      in if float_bound \<le> \<bar>q\<bar> then Inl OverflowError else Inr (Finite q))"

definition parse_lot_sizes :: "json \<Rightarrow> error + (int option \<times> pyfloat option)" where
  "parse_lot_sizes d =
     (let sqft_val = search d lot_sqft_key;
          acres_val = search d acre_key
      in bind_raise (parse_int sqft_val) (\<lambda>lot_size_sqft.
         bind_raise (parse_float acres_val) (\<lambda>lot_size_acres.
           (case (lot_size_sqft, lot_size_acres) of
              (None, Some acres) \<Rightarrow>
                bind_raise (int_of_float (float_times acres 43560)) (\<lambda>n.
                  Inr (Some n, lot_size_acres))
            | (Some n, None) \<Rightarrow>
                bind_raise (int_true_div n 43560) (\<lambda>x. Inr (lot_size_sqft, Some x))
            | _ \<Rightarrow> Inr (lot_size_sqft, lot_size_acres)))))"

definition parse_address_block ::
    "(json \<Rightarrow> string) \<Rightarrow> json \<Rightarrow> string \<times> string \<times> string \<times> string" where
  "parse_address_block pyrepr d =
     (let addr_obj = search_keys d [''address''];
          (address, city, state, zip_code) =
            (case addr_obj of
               JObj kvs \<Rightarrow>
                 (py_or (search_keys addr_obj [''line1'', ''street'', ''address1'']) (JStr []),
                  py_or (search_keys addr_obj [''city'', ''cityname'']) (JStr []),
                  py_or (search_keys addr_obj [''state'', ''statecode'', ''province'']) (JStr []),
                  py_or (search_keys addr_obj [''postalcode'', ''zipcode'', ''zip'', ''postal''])
                    (JStr []))
             | JStr s \<Rightarrow> (addr_obj, JStr [], JStr [], JStr [])
             | _ \<Rightarrow> (JStr [], JStr [], JStr [], JStr []));
          city = (if \<not> truthy city
                  then py_or (search_keys d [''city'', ''cityname'']) (JStr []) else city);
          state = (if \<not> truthy state
                   then py_or (search_keys d [''state'', ''statecode'', ''province'']) (JStr [])
                   else state);
          zip_code = (if \<not> truthy zip_code
                      then py_or (search_keys d [''postalcode'', ''zipcode'', ''zip'', ''postal''])
                             (JStr [])
                      else zip_code)
      in (py_str pyrepr address, py_str pyrepr city, py_str pyrepr state, py_str pyrepr zip_code))"

definition parse_price :: "json \<Rightarrow> error + int option" where
  "parse_price d =
     (let val = search d (\<lambda>k. str_contains ''price'' (str_lower k)) in parse_int val)"

definition parse_year_built :: "json \<Rightarrow> error + int option" where
  "parse_year_built d =
     (let val = search_keys d [''yearbuilt'', ''built'', ''constructionyear''] in parse_int val)"

definition parse_property_type :: "(json \<Rightarrow> string) \<Rightarrow> json \<Rightarrow> string" where
  "parse_property_type pyrepr d =
     (let val = search d (\<lambda>k. str_contains ''propertytype'' (str_lower (str_delete CHR ''_'' k))
                             \<or> str_lower k = ''type'' \<or> str_lower k = ''hometype'')
      in if val \<noteq> JNull then py_str pyrepr val else [])"

definition parse_description :: "(json \<Rightarrow> string) \<Rightarrow> json \<Rightarrow> string" where
  "parse_description pyrepr d =
     (let val = search d (\<lambda>k. list_ex (\<lambda>s. str_contains s (str_lower (str_delete CHR ''_'' k)))
                                [''description'', ''remarks'', ''summary''])
      in if val \<noteq> JNull then py_str pyrepr val else [])"

definition parse_rooms_total :: "json \<Rightarrow> error + pyfloat option" where
  "parse_rooms_total d =
     (let val = search d (\<lambda>k. str_contains ''room'' (str_lower k)
                             \<and> str_contains ''total'' (str_lower k))
      in parse_float val)"

text \<open>\<^verbatim>\<open>re.split(r"[;,\n]", s)\<close>, then each part stripped and the empty parts dropped.\<close>

fun split_on :: "(char \<Rightarrow> bool) \<Rightarrow> string \<Rightarrow> string list" where
  "split_on sep [] = [[]]"
| "split_on sep (c # cs) =
     (if sep c then [] # split_on sep cs
      else (case split_on sep cs of [] \<Rightarrow> [[c]] | part # parts \<Rightarrow> (c # part) # parts))"

definition token_parts :: "string \<Rightarrow> string list" where
  "token_parts s =
     filter (\<lambda>part. part \<noteq> [])
       (map str_strip (split_on (\<lambda>c. c = CHR '';'' \<or> c = CHR '','' \<or> c = CHR 0x0A) s))"

text \<open>The inner function \<^verbatim>\<open>_extract\<close> of \<^verbatim>\<open>collect_raw_amenities\<close>, returning the tokens it appends.\<close>

fun extract_tokens :: "json \<Rightarrow> string list"
  and extract_items :: "(string \<times> json) list \<Rightarrow> string list"
  and extract_elems :: "json list \<Rightarrow> string list" where
  "extract_tokens (JObj kvs) = extract_items kvs"
| "extract_tokens (JArr xs) = extract_elems xs"
| "extract_tokens (JStr s) = token_parts s"
| "extract_tokens JNull = []"
| "extract_tokens (JBool b) = []"
| "extract_tokens (JInt i) = []"
| "extract_tokens (JFloat f) = []"
| "extract_items [] = []"
| "extract_items ((k, v) # rest) =
     (let kl = str_lower k in
      (if list_ex (\<lambda>word. str_contains word kl) [''amenit'', ''feature'']
       then extract_tokens v else extract_tokens v) @ extract_items rest)"
| "extract_elems [] = []"
| "extract_elems (item # rest) = extract_tokens item @ extract_elems rest"

definition collect_raw_amenities :: "json \<Rightarrow> string option \<Rightarrow> string list" where
  "collect_raw_amenities d description_text =
     extract_tokens d @
     (case description_text of
        None \<Rightarrow> []
      | Some t \<Rightarrow> if t \<noteq> [] then token_parts t else [])"

section \<open>Row assembler (normalize.py)\<close>

text \<open>
  \<^verbatim>\<open>ListingRow\<close>. The model class of this repository is a plain dataclass that stores what
  it is given, so \<open>city\<close> and \<open>state\<close> can hold \<^verbatim>\<open>None\<close> (here \<open>None\<close>) although they are
  declared \<^verbatim>\<open>str\<close>. The field \<^verbatim>\<open>zip\<close> is \<open>zip_code\<close> here.
\<close>

record ListingRow =
  source_url :: string
  mls_id :: string
  address :: string
  city :: "string option"
  state :: "string option"
  zip_code :: string
  beds :: "pyfloat option"
  baths :: "pyfloat option"
  rooms_total :: "pyfloat option"
  sqft :: "int option"
  year_built :: "int option"
  lot_size_sqft :: "int option"
  lot_size_acres :: "pyfloat option"
  property_type :: string
  price :: "int option"
  amenities :: "string list"
  description :: string

text \<open>
  The fallbacks are a \<^verbatim>\<open>Mapping[str, Optional[str]]\<close>: a key can be missing, bound to
  \<^verbatim>\<open>None\<close> or bound to a string. \<^verbatim>\<open>fallbacks.get(key, "")\<close>:
\<close>

type_synonym fallbacks = "string \<rightharpoonup> string option"

definition get_fallback :: "fallbacks \<Rightarrow> string \<Rightarrow> string option" where
  "get_fallback fb key = (case fb key of None \<Rightarrow> Some [] | Some v \<Rightarrow> v)"

definition to_listing_row ::
    "(json \<Rightarrow> string) \<Rightarrow> json \<Rightarrow> string \<Rightarrow> vocab \<Rightarrow> fallbacks \<Rightarrow> error + ListingRow" where
  "to_listing_row pyrepr raw_dict url vocab fb =
     (let descr = parse_description pyrepr raw_dict;
          raw_tokens = collect_raw_amenities raw_dict (Some descr);
          amens = normalize_amenities raw_tokens vocab (Some descr)
      in bind_raise (parse_lot_sizes raw_dict) (\<lambda>(lot_sqft, lot_acres).
         let (addr, cty, st, zp) = parse_address_block pyrepr raw_dict
         in bind_raise (parse_bedrooms raw_dict) (\<lambda>bd.
            bind_raise (parse_bathrooms raw_dict) (\<lambda>bt.
            bind_raise (parse_rooms_total raw_dict) (\<lambda>rt.
            bind_raise (parse_sqft raw_dict) (\<lambda>sq.
            bind_raise (parse_year_built raw_dict) (\<lambda>yb.
            let ptype = parse_property_type pyrepr raw_dict
            in bind_raise (parse_price raw_dict) (\<lambda>pr.
               Inr \<lparr> source_url = url,
                     mls_id = py_str pyrepr
                       (py_or (search raw_dict
                                 (\<lambda>k. str_lower k \<in> {''mls_id'', ''mlsid'', ''listingid'', ''id''}))
                              (JStr [])),
                     address = addr,
                     city = (if cty \<noteq> [] then Some cty else get_fallback fb ''city''),
                     state = (if st \<noteq> [] then Some st else get_fallback fb ''state''),
                     zip_code = zp,
                     beds = bd,
                     baths = bt,
                     rooms_total = rt,
                     sqft = sq,
                     year_built = yb,
                     lot_size_sqft = lot_sqft,
                     lot_size_acres = lot_acres,
                     property_type = ptype,
                     price = pr,
                     amenities = amens,
                     description = descr \<rparr>))))))))"

section \<open>Notions used to state properties of the sanitizer\<close>



section \<open>Properties of the search\<close>

lemma search_no_key:
  "(\<forall>k \<in> set (keys_of obj). \<not> p k) \<Longrightarrow> search obj p = JNull"
  "(\<forall>k \<in> set (keys_of_items kvs). \<not> p k) \<Longrightarrow> search_items kvs p = JNull"
  "(\<forall>k \<in> set (keys_of_elems xs). \<not> p k) \<Longrightarrow> search_elems xs p = JNull"
  by (induction obj p and kvs p and xs p rule: search_search_items_search_elems.induct)
     (simp_all add: Let_def)

lemma search_items_skip:
  "\<forall>(k', v') \<in> set pre. \<not> p k' \<and> search v' p = JNull \<Longrightarrow>
   search_items (pre @ rest) p = search_items rest p"
  by (induction pre) (auto simp: Let_def)

lemma keys_of_items_sub:
  "(k', v') \<in> set pre \<Longrightarrow> set (k' # keys_of v') \<subseteq> set (keys_of_items pre)"
  by (induction pre) auto

lemma search_items_skip_keys:
  assumes "\<forall>key \<in> set (keys_of_items pre). \<not> p key"
  shows "search_items (pre @ rest) p = search_items rest p"
proof (rule search_items_skip, clarify)
  fix k' v' assume kv: "(k', v') \<in> set pre"
  from keys_of_items_sub [OF kv] assms
  have "\<not> p k'" and "\<forall>key \<in> set (keys_of v'). \<not> p key" by auto
  then show "\<not> p k' \<and> search v' p = JNull"
    by (simp add: search_no_key(1))
qed

lemmas str_eval = str_lower_def lower_char_def is_upper_def is_lower_def is_digit_def
  str_delete_def is_space_def is_word_def str_strip_def char_of_def bit_Suc_0_iff




subsection \<open>Traversal order\<close>




subsection \<open>A matching key bound to null\<close>

text \<open>
  C9: when the first key in traversal order that satisfies the predicate is a direct key \<open>k\<close>
  of the mapping and is bound to null (no key anywhere in the entries before it satisfies
  the predicate), the search returns absent, whatever the later entries \<open>post\<close> hold.
\<close>

theorem search_null_match_absent:
  "(\<forall>key \<in> set (keys_of_items pre). \<not> p key) \<Longrightarrow> p k \<Longrightarrow>
     search (JObj (pre @ (k, JNull) # post)) p = JNull"
  using search_items_skip_keys [of pre p "(k, JNull) # post"] by simp

theorem search_null_match_absent_witness:
  "search_keys (JObj ([] @ (''beds'', JNull) # [(''bedrooms'', JInt 3)]))
     [''beds'', ''bedrooms'', ''bed''] = JNull"
  unfolding search_keys_def Let_def
  by (rule search_null_match_absent) (simp_all add: str_eval)

subsection \<open>Normalisation of keys and candidate names\<close>




section \<open>Properties of the amenity matcher\<close>

lemmas am_eval = sanitize_def reverse_vocab_def normalize_amenities_def search_word_def
  match_at_def word_boundary_def Let_def





lemma found_tokens_inv:
  "distinct acc \<Longrightarrow>
   distinct (fold (\<lambda>token found. let key = f token in
                     case map_of reverse key of Some canon \<Rightarrow> List.insert canon found
                     | None \<Rightarrow> found) tokens acc)
   \<and> set (fold (\<lambda>token found. let key = f token in
                     case map_of reverse key of Some canon \<Rightarrow> List.insert canon found
                     | None \<Rightarrow> found) tokens acc)
       \<subseteq> set acc \<union> {c. \<exists>t \<in> set tokens. map_of reverse (f t) = Some c}"
proof (induction tokens arbitrary: acc)
  case Nil
  then show ?case by simp
next
  case (Cons t tokens)
  let ?acc = "case map_of reverse (f t) of Some canon \<Rightarrow> List.insert canon acc | None \<Rightarrow> acc"
  have d: "distinct ?acc" using Cons.prems by (simp split: option.splits)
  have s: "set ?acc \<subseteq> set acc \<union> {c. map_of reverse (f t) = Some c}"
    by (auto split: option.splits)
  from Cons.IH [OF d] s show ?case by (auto simp: Let_def)
qed

lemma found_description_inv:
  "distinct acc \<Longrightarrow>
   distinct (fold (\<lambda>(syn, canon) found.
                     if P syn then List.insert canon found else found) entries acc)
   \<and> set (fold (\<lambda>(syn, canon) found.
                     if P syn then List.insert canon found else found) entries acc)
       \<subseteq> set acc \<union> {c. \<exists>syn. (syn, c) \<in> set entries \<and> P syn}"
proof (induction entries arbitrary: acc)
  case Nil
  then show ?case by simp
next
  case (Cons e entries)
  obtain syn canon where e: "e = (syn, canon)" by (cases e)
  let ?step = "\<lambda>(syn, canon) found. if P syn then List.insert canon found else found"
  let ?acc = "if P syn then List.insert canon acc else acc"
  have d: "distinct ?acc" using Cons.prems by simp
  have s: "set ?acc \<subseteq> set acc \<union> {c. \<exists>syn. (syn, c) \<in> set (e # entries) \<and> P syn}"
    by (auto simp: e)
  have m: "{c. \<exists>syn. (syn, c) \<in> set entries \<and> P syn}
             \<subseteq> {c. \<exists>syn. (syn, c) \<in> set (e # entries) \<and> P syn}"
    by auto
  have u: "fold ?step (e # entries) acc = fold ?step entries ?acc"
    by (simp add: e)
  from Cons.IH [OF d] have "distinct (fold ?step entries ?acc)"
    and "set (fold ?step entries ?acc) \<subseteq> set ?acc \<union> {c. \<exists>syn. (syn, c) \<in> set entries \<and> P syn}"
    by blast+
  with s m show ?case unfolding u by blast
qed

lemma normalize_amenities_sources:
  assumes "c \<in> set (normalize_amenities T V d)"
  shows "(\<exists>t \<in> set T. map_of (reverse_vocab V) (sanitize t) = Some c)
         \<or> (\<exists>descr syn. d = Some descr \<and> descr \<noteq> [] \<and> (syn, c) \<in> set (reverse_vocab V)
               \<and> search_word syn (sanitize descr))"
proof -
  let ?found = "fold (\<lambda>token found. let key = sanitize token in
                     case map_of (reverse_vocab V) key of Some canon \<Rightarrow> List.insert canon found
                     | None \<Rightarrow> found) T []"
  have f: "distinct ?found"
    "set ?found \<subseteq> {c. \<exists>t \<in> set T. map_of (reverse_vocab V) (sanitize t) = Some c}"
    using found_tokens_inv [of "[]" sanitize "reverse_vocab V" T] by auto
  show ?thesis
  proof (cases "\<exists>descr. d = Some descr \<and> descr \<noteq> []")
    case False
    then have "set (normalize_amenities T V d) = set ?found"
      by (cases d) (auto simp: normalize_amenities_def Let_def)
    with assms f(2) show ?thesis by auto
  next
    case True
    then obtain descr where t: "d = Some descr" "descr \<noteq> []" by auto
    let ?P = "\<lambda>syn. search_word syn (sanitize descr)"
    have "set (normalize_amenities T V d)
            = set (fold (\<lambda>(syn, canon) found.
                     if ?P syn then List.insert canon found else found) (reverse_vocab V) ?found)"
      using t by (simp add: normalize_amenities_def Let_def)
    with found_description_inv [OF f(1), of ?P "reverse_vocab V"] assms
    have "c \<in> set ?found \<union> {c. \<exists>syn. (syn, c) \<in> set (reverse_vocab V) \<and> ?P syn}"
      by blast
    with f(2) t show ?thesis by blast
  qed
qed



subsection \<open>The result of normalizeAmenities\<close>




subsection \<open>Whole-word matching in descriptions\<close>

lemma search_word_match: "search_word syn s \<Longrightarrow> \<exists>i. match_at syn s i"
  by (auto simp: search_word_def list_ex_iff)

text \<open>
  C5: when every occurrence of \<^verbatim>\<open>pool\<close> in the sanitized description lies inside the word
  \<^verbatim>\<open>carpool\<close>, the synonym \<^verbatim>\<open>pool\<close> does not match the description, and every label in
  the result comes from a raw token or from a whole-word match of an index entry other
  than \<^verbatim>\<open>pool\<close>: the occurrence inside \<^verbatim>\<open>carpool\<close> adds nothing.
\<close>

theorem description_whole_word:
  assumes "\<forall>i. take 4 (drop i (sanitize d)) = ''pool''
             \<longrightarrow> 3 \<le> i \<and> take 7 (drop (i - 3) (sanitize d)) = ''carpool''"
  shows "\<not> search_word ''pool'' (sanitize d)
         \<and> (c \<in> set (normalize_amenities T V (Some d)) \<longrightarrow>
              (\<exists>t \<in> set T. map_of (reverse_vocab V) (sanitize t) = Some c)
              \<or> (\<exists>syn. syn \<noteq> ''pool'' \<and> (syn, c) \<in> set (reverse_vocab V)
                    \<and> search_word syn (sanitize d)))"
proof -
  let ?s = "sanitize d"
  have no: "\<not> search_word ''pool'' ?s"
  proof
    assume "search_word ''pool'' ?s"
    then obtain i where m: "match_at ''pool'' ?s i" by (auto dest: search_word_match)
    have l4: "length ''pool'' = 4" by simp
    from m have b: "word_boundary ?s i" and len: "i + 4 \<le> length ?s"
      and occ: "take 4 (drop i ?s) = ''pool''"
      unfolding match_at_def l4 by blast+
    from assms occ have i3: "3 \<le> i" and car: "take 7 (drop (i - 3) ?s) = ''carpool''"
      by blast+
    have "i - 3 + 2 = i - 1" using i3 by arith
    moreover have "i - 3 \<le> length ?s" using len by arith
    ultimately have "take 7 (drop (i - 3) ?s) ! 2 = ?s ! (i - 1)"
      by (simp add: nth_drop)
    with car have r: "?s ! (i - 1) = CHR ''r''" by simp
    have "take 4 (drop i ?s) ! 0 = ?s ! i"
      using len by (simp add: nth_drop)
    with occ have p: "?s ! i = CHR ''p''" by simp
    have "is_word (?s ! (i - 1))" "is_word (?s ! i)"
      unfolding r p by (simp_all add: str_eval)
    with i3 len have "\<not> word_boundary ?s i"
      by (simp add: word_boundary_def)
    with b show False by contradiction
  qed
  show ?thesis
  proof (intro conjI impI)
    show "\<not> search_word ''pool'' ?s" by (rule no)
    assume "c \<in> set (normalize_amenities T V (Some d))"
    from normalize_amenities_sources [OF this] no
    show "(\<exists>t \<in> set T. map_of (reverse_vocab V) (sanitize t) = Some c)
          \<or> (\<exists>syn. syn \<noteq> ''pool'' \<and> (syn, c) \<in> set (reverse_vocab V)
                \<and> search_word syn (sanitize d))"
      by auto
  qed
qed

theorem description_whole_word_witness:
  "\<not> search_word ''pool'' (sanitize ''Carpool lane!'')
   \<and> ''pool'' \<notin> set (normalize_amenities [] [(''pool'', [''swimming pool''])]
                        (Some ''Carpool lane!''))"
proof -
  have s: "sanitize ''Carpool lane!'' = ''carpool lane''"
    by (simp add: am_eval str_eval)
  have h: "\<forall>i. take 4 (drop i (sanitize ''Carpool lane!'')) = ''pool''
             \<longrightarrow> 3 \<le> i \<and> take 7 (drop (i - 3) (sanitize ''Carpool lane!'')) = ''carpool''"
  proof (intro allI impI)
    fix i :: nat
    assume a: "take 4 (drop i (sanitize ''Carpool lane!'')) = ''pool''"
    have "i < 12"
    proof (rule ccontr)
      assume "\<not> i < 12"
      then have "drop i ''carpool lane'' = []" by simp
      with a s show False by simp
    qed
    then have "i \<in> {0, 1, 2, 3, 4, 5, 6, 7, 8, 9, 10, 11}" by simp arith
    with a show "3 \<le> i \<and> take 7 (drop (i - 3) (sanitize ''Carpool lane!'')) = ''carpool''"
      unfolding s by auto
  qed
  have r: "reverse_vocab [(''pool'', [''swimming pool''])]
             = [(''pool'', ''pool''), (''swimming pool'', ''pool'')]"
    by (simp add: am_eval str_eval)
  have n: "\<not> search_word ''swimming pool'' ''carpool lane''"
    by (simp add: am_eval str_eval)
  from description_whole_word [OF h, of "''pool''" "[]" "[(''pool'', [''swimming pool''])]"] n
  show ?thesis unfolding r s by auto
qed

section \<open>Properties of the field extractors and the row assembler\<close>

lemmas num_eval = parse_float_def parse_int_def float_of_str_def float_of_int_def
  int_of_float_def round_float_def float_bound_def digits_val_def digit_val_def
  float_times_def int_true_div_def bind_raise_def

subsection \<open>Lot sizes\<close>



subsection \<open>Numbers out of range\<close>

lemma digits_val_nines: "digits_val (replicate n CHR ''9'') = 10 ^ n - 1"
proof -
  have "foldl (\<lambda>n c. 10 * n + digit_val c) a (replicate n CHR ''9'') = (a + 1) * 10 ^ n - 1"
    for a
    by (induction n arbitrary: a) (simp_all add: digit_val_def algebra_simps)
  from this [of 0] show ?thesis by (simp add: digits_val_def)
qed

lemma parse_int_nines: "parse_int (JStr (replicate 400 CHR ''9'')) = Inl OverflowError"
proof -
  have "filter (\<lambda>c. is_digit c \<or> c = CHR ''.'' \<or> c = CHR ''-'')
          (str_delete CHR '','' (replicate 400 CHR ''9'')) = replicate 400 CHR ''9''"
    by (simp add: str_eval)
  moreover have "float_of_str (replicate 400 CHR ''9'') = Some PosInf"
    by (simp add: float_of_str_def Let_def digits_val_nines round_float_def float_bound_def
          str_eval list_all_iff)
  ultimately show ?thesis
    by (simp add: parse_int_def parse_float_def int_of_float_def)
qed

lemma to_listing_row_price_raises:
  assumes "parse_lot_sizes d = Inr l" "parse_bedrooms d = Inr bd" "parse_bathrooms d = Inr bt"
    "parse_rooms_total d = Inr rt" "parse_sqft d = Inr sq" "parse_year_built d = Inr yb"
    "parse_price d = Inl e"
  shows "to_listing_row pyrepr d url V fb = Inl e"
  using assms by (simp add: to_listing_row_def Let_def bind_raise_def split: prod.splits)

lemma to_listing_row_returns:
  assumes "parse_lot_sizes d = Inr l" "parse_bedrooms d = Inr bd" "parse_bathrooms d = Inr bt"
    "parse_rooms_total d = Inr rt" "parse_sqft d = Inr sq" "parse_year_built d = Inr yb"
    "parse_price d = Inr pr"
  shows "\<exists>row. to_listing_row pyrepr d url V fb = Inr row"
  using assms by (simp add: to_listing_row_def Let_def bind_raise_def split: prod.splits)

lemma to_listing_row_city_state:
  assumes "to_listing_row pyrepr d url V fb = Inr row"
    and "parse_address_block pyrepr d = (addr, cty, st, zp)"
  shows "city row = (if cty \<noteq> [] then Some cty else get_fallback fb ''city'')"
    and "state row = (if st \<noteq> [] then Some st else get_fallback fb ''state'')"
  using assms
  by (auto simp: to_listing_row_def Let_def bind_raise_def split: sum.splits prod.splits)

text \<open>
  C3 does not hold of the code. A digit string too long for a float is read as infinity by
  \<^verbatim>\<open>parse_float\<close>, and \<^verbatim>\<open>parse_int\<close> then raises \<^verbatim>\<open>OverflowError\<close> in \<^verbatim>\<open>int(num)\<close>: for the
  candidate \<^verbatim>\<open>{"price": "99...9"}\<close> (400 digits), toListingRow raises instead of returning a
  row with an absent price. An integer too large for a float makes \<^verbatim>\<open>parse_float\<close> itself
  raise, and so does the extraction of a field that holds it.
\<close>

theorem to_listing_row_raises:
  "to_listing_row pyrepr (JObj [(''price'', JStr (replicate 400 CHR ''9''))]) url V fb
     = Inl OverflowError
   \<and> parse_float (JInt (2 ^ 1024)) = Inl OverflowError
   \<and> parse_bedrooms (JObj [(''beds'', JInt (2 ^ 1024))]) = Inl OverflowError"
proof (intro conjI)
  let ?d = "JObj [(''price'', JStr (replicate 400 CHR ''9''))]"
  have lot: "parse_lot_sizes ?d = Inr (None, None)"
    by (simp add: parse_lot_sizes_def lot_sqft_key_def acre_key_def str_eval num_eval)
  have nums: "parse_bedrooms ?d = Inr None" "parse_bathrooms ?d = Inr None"
    "parse_rooms_total ?d = Inr None" "parse_sqft ?d = Inr None" "parse_year_built ?d = Inr None"
    by (simp_all add: parse_bedrooms_def parse_bathrooms_def parse_rooms_total_def parse_sqft_def
          parse_year_built_def search_keys_def str_eval parse_float_def parse_int_def)
  have "search ?d (\<lambda>k. str_contains ''price'' (str_lower k)) = JStr (replicate 400 CHR ''9'')"
    by (simp add: str_eval)
  then have pr: "parse_price ?d = Inl OverflowError"
    by (simp add: parse_price_def parse_int_nines)
  from lot nums pr show "to_listing_row pyrepr ?d url V fb = Inl OverflowError"
    by (rule to_listing_row_price_raises)
  have "(0::rat) \<le> 2 ^ 970" by (rule zero_le_power) simp
  then have "(2::rat) ^ 1024 - 2 ^ 970 \<le> \<bar>of_int (2 ^ 1024)\<bar>"
    by (simp only: of_int_power of_int_numeral power_abs [symmetric] abs_numeral)
  then show big: "parse_float (JInt (2 ^ 1024)) = Inl OverflowError"
    by (simp only: parse_float_def float_of_int_def float_bound_def json.case if_True
          map_sum.simps id_apply)
  have "search_keys (JObj [(''beds'', v)]) [''beds'', ''bedrooms'', ''bed''] = v" for v
    by (simp add: search_keys_def str_eval)
  then show "parse_bedrooms (JObj [(''beds'', JInt (2 ^ 1024))]) = Inl OverflowError"
    by (simp only: parse_bedrooms_def Let_def big)
qed

subsection \<open>City and state fallbacks\<close>

lemma search_subtree_keys:
  "set (keys_of (search obj p)) \<subseteq> set (keys_of obj)"
  "set (keys_of (search_items kvs p)) \<subseteq> set (keys_of_items kvs)"
  "set (keys_of (search_elems xs p)) \<subseteq> set (keys_of_elems xs)"
  by (induction obj p and kvs p and xs p rule: search_search_items_search_elems.induct)
     (auto simp: Let_def)

lemma search_keys_absent:
  assumes "\<forall>k \<in> set (keys_of d).
             str_lower (str_delete CHR ''-'' (str_delete CHR ''_'' k)) \<notin> set (map str_lower names)"
  shows "search_keys d names = JNull"
  unfolding search_keys_def Let_def using assms by (intro search_no_key(1)) blast

text \<open>
  A candidate has no city or state field when no key anywhere in it, stripped of \<^verbatim>\<open>_\<close> and
  \<^verbatim>\<open>-\<close> and lower-cased, is one of the names that \<^verbatim>\<open>parse_address_block\<close> looks for.
\<close>

lemma no_city_state_extraction:
  assumes "\<forall>k \<in> set (keys_of d).
             str_lower (str_delete CHR ''-'' (str_delete CHR ''_'' k))
               \<notin> {''city'', ''cityname'', ''state'', ''statecode'', ''province''}"
  shows "\<exists>addr zp. parse_address_block pyrepr d = (addr, [], [], zp)"
proof -
  have low: "str_lower ''city'' = ''city''" "str_lower ''cityname'' = ''cityname''"
    "str_lower ''state'' = ''state''" "str_lower ''statecode'' = ''statecode''"
    "str_lower ''province'' = ''province''"
    by (simp_all add: str_eval)
  have sub: "set (keys_of (search_keys d [''address''])) \<subseteq> set (keys_of d)"
    unfolding search_keys_def Let_def by (rule search_subtree_keys(1))
  have c: "search_keys d [''city'', ''cityname''] = JNull"
    and s: "search_keys d [''state'', ''statecode'', ''province''] = JNull"
    using assms by (auto intro!: search_keys_absent simp: low)
  have c': "search_keys (search_keys d [''address'']) [''city'', ''cityname''] = JNull"
    and s': "search_keys (search_keys d [''address'']) [''state'', ''statecode'', ''province'']
               = JNull"
    using assms sub by (auto intro!: search_keys_absent simp: low)
  show ?thesis
    using c' s'
    by (cases "search_keys d [''address'']")
       (auto simp: parse_address_block_def Let_def c s py_or_def truthy_def py_str_def
             split: prod.splits)
qed

lemma fallbacks_applied:
  assumes "\<forall>k \<in> set (keys_of d).
             str_lower (str_delete CHR ''-'' (str_delete CHR ''_'' k))
               \<notin> {''city'', ''cityname'', ''state'', ''statecode'', ''province''}"
    and "to_listing_row pyrepr d url V fb = Inr row"
  shows "city row = get_fallback fb ''city'' \<and> state row = get_fallback fb ''state''"
proof -
  from no_city_state_extraction [OF assms(1)]
  obtain addr zp where "parse_address_block pyrepr d = (addr, [], [], zp)" by blast
  from to_listing_row_city_state [OF assms(2) this] show ?thesis by simp
qed

text \<open>
  C10: in a row that toListingRow produces, a city (or state) whose extraction yields the
  empty string and whose fallback entry is explicitly bound to null is null, not the empty
  string.
\<close>

theorem null_fallback_carried:
  "to_listing_row pyrepr d url V fb = Inr row \<Longrightarrow>
   parse_address_block pyrepr d = (addr, cty, st, zp) \<Longrightarrow>
     (cty = [] \<and> fb ''city'' = Some None \<longrightarrow> city row = None)
     \<and> (st = [] \<and> fb ''state'' = Some None \<longrightarrow> state row = None)"
  using to_listing_row_city_state [of pyrepr d url V fb row addr cty st zp]
  by (simp add: get_fallback_def)

theorem null_fallback_carried_witness:
  "\<exists>row. to_listing_row (\<lambda>v. ''?'') (JObj [(''address'', JStr ''1 Main St'')]) ''http://example.com/1''
            [(''pool'', [''swimming pool''])] [''city'' \<mapsto> None, ''state'' \<mapsto> None] = Inr row
         \<and> city row = None \<and> state row = None"
proof -
  let ?d = "JObj [(''address'', JStr ''1 Main St'')]"
  let ?fb = "[''city'' \<mapsto> None, ''state'' \<mapsto> None] :: fallbacks"
  have lot: "parse_lot_sizes ?d = Inr (None, None)"
    by (simp add: parse_lot_sizes_def lot_sqft_key_def acre_key_def str_eval num_eval)
  have nums: "parse_bedrooms ?d = Inr None" "parse_bathrooms ?d = Inr None"
    "parse_rooms_total ?d = Inr None" "parse_sqft ?d = Inr None" "parse_year_built ?d = Inr None"
    "parse_price ?d = Inr None"
    by (simp_all add: parse_bedrooms_def parse_bathrooms_def parse_rooms_total_def parse_sqft_def
          parse_year_built_def parse_price_def search_keys_def str_eval parse_float_def
          parse_int_def)
  from to_listing_row_returns [OF lot nums]
  obtain row where row: "to_listing_row (\<lambda>v. ''?'') ?d ''http://example.com/1''
      [(''pool'', [''swimming pool''])] ?fb = Inr row"
    by blast
  have addr: "parse_address_block (\<lambda>v. ''?'') ?d = (''1 Main St'', [], [], [])"
    by (simp add: parse_address_block_def search_keys_def str_eval py_or_def truthy_def
          py_str_def Let_def)
  from null_fallback_carried [OF row addr] have "city row = None \<and> state row = None"
    by simp
  with row show ?thesis by blast
qed

text \<open>
  C8 does not hold of the code as stated, through the defect of C3: a candidate without any
  city or state field whose price is a 400-digit string makes toListingRow raise, so no row
  with the fallback city and state is produced. (Whenever a row is produced for a candidate
  without city and state fields, it carries the fallbacks: lemma \<open>fallbacks_applied\<close>.)
\<close>

theorem fallback_row_not_produced:
  "to_listing_row pyrepr
     (JObj [(''address'', JStr ''123 Main St''), (''price'', JStr (replicate 400 CHR ''9''))])
     url V [''city'' \<mapsto> Some ''FallbackVille'', ''state'' \<mapsto> Some ''CA'']
   = Inl OverflowError"
proof -
  let ?d = "JObj [(''address'', JStr ''123 Main St''), (''price'', JStr (replicate 400 CHR ''9''))]"
  have lot: "parse_lot_sizes ?d = Inr (None, None)"
    by (simp add: parse_lot_sizes_def lot_sqft_key_def acre_key_def str_eval num_eval)
  have nums: "parse_bedrooms ?d = Inr None" "parse_bathrooms ?d = Inr None"
    "parse_rooms_total ?d = Inr None" "parse_sqft ?d = Inr None" "parse_year_built ?d = Inr None"
    by (simp_all add: parse_bedrooms_def parse_bathrooms_def parse_rooms_total_def parse_sqft_def
          parse_year_built_def search_keys_def str_eval parse_float_def parse_int_def)
  have "search ?d (\<lambda>k. str_contains ''price'' (str_lower k)) = JStr (replicate 400 CHR ''9'')"
    by (simp add: str_eval)
  then have pr: "parse_price ?d = Inl OverflowError"
    by (simp add: parse_price_def parse_int_nines)
  from lot nums pr show ?thesis by (rule to_listing_row_price_raises)
qed

subsection \<open>A complete row\<close>

text \<open>
  The end-to-end example of the specification, with a three-entry vocabulary: every field
  of the row is computed as the specification lists it.
\<close>

lemma to_listing_row_example:
  "to_listing_row pyrepr
     (JObj [(''address'', JObj [(''line1'', JStr ''123 Main St''), (''city'', JStr ''Springfield''),
                                (''state'', JStr ''IL''), (''zip'', JStr ''62701'')]),
            (''beds'', JInt 3), (''baths'', JStr ''2.5''), (''sqft'', JStr ''1,234 sqft''),
            (''lot_acres'', JStr ''0.5''), (''price'', JStr ''$350,000''),
            (''yearBuilt'', JInt 1999), (''propertyType'', JStr ''Single Family''),
            (''amenities'', JStr ''garage, pool''), (''remarks'', JStr ''Solar panels installed.'')])
     ''http://example.com/1''
     [(''garage'', [''two car garage'']), (''pool'', [''swimming pool'']),
      (''solar'', [''solar panels''])]
     Map.empty
   = Inr \<lparr> source_url = ''http://example.com/1'', mls_id = [], address = ''123 Main St'',
           city = Some ''Springfield'', state = Some ''IL'', zip_code = ''62701'',
           beds = Some (Finite 3), baths = Some (Finite (5 / 2)), rooms_total = None,
           sqft = Some 1234, year_built = Some 1999, lot_size_sqft = Some 21780,
           lot_size_acres = Some (Finite (1 / 2)), property_type = ''Single Family'',
           price = Some 350000, amenities = [''garage'', ''pool'', ''solar''],
           description = ''Solar panels installed.'' \<rparr>"
proof -
  let ?d = "JObj [(''address'', JObj [(''line1'', JStr ''123 Main St''),
                     (''city'', JStr ''Springfield''), (''state'', JStr ''IL''),
                     (''zip'', JStr ''62701'')]),
            (''beds'', JInt 3), (''baths'', JStr ''2.5''), (''sqft'', JStr ''1,234 sqft''),
            (''lot_acres'', JStr ''0.5''), (''price'', JStr ''$350,000''),
            (''yearBuilt'', JInt 1999), (''propertyType'', JStr ''Single Family''),
            (''amenities'', JStr ''garage, pool''), (''remarks'', JStr ''Solar panels installed.'')]"
  let ?V = "[(''garage'', [''two car garage'']), (''pool'', [''swimming pool'']),
             (''solar'', [''solar panels''])]"
  let ?toks = "[''123 Main St'', ''Springfield'', ''IL'', ''62701'', ''2.5'', ''1'', ''234 sqft'',
                ''0.5'', ''$350'', ''000'', ''Single Family'', ''garage'', ''pool'',
                ''Solar panels installed.'', ''Solar panels installed.'']"
  have d: "parse_description pyrepr ?d = ''Solar panels installed.''"
    by (simp add: parse_description_def py_str_def str_eval)
  have lot: "parse_lot_sizes ?d = Inr (Some 21780, Some (Finite (1 / 2)))"
    by (simp add: parse_lot_sizes_def lot_sqft_key_def acre_key_def str_eval num_eval)
  have nums: "parse_bedrooms ?d = Inr (Some (Finite 3))"
    "parse_bathrooms ?d = Inr (Some (Finite (5 / 2)))"
    "parse_rooms_total ?d = Inr None" "parse_sqft ?d = Inr (Some 1234)"
    "parse_year_built ?d = Inr (Some 1999)" "parse_price ?d = Inr (Some 350000)"
    by (simp_all add: parse_bedrooms_def parse_bathrooms_def parse_rooms_total_def
          parse_sqft_def parse_year_built_def parse_price_def search_keys_def str_eval num_eval)
  have addr: "parse_address_block pyrepr ?d = (''123 Main St'', ''Springfield'', ''IL'', ''62701'')"
    by (simp add: parse_address_block_def search_keys_def str_eval py_or_def truthy_def
          py_str_def Let_def)
  have pt: "parse_property_type pyrepr ?d = ''Single Family''"
    by (simp add: parse_property_type_def py_str_def str_eval)
  have toks: "collect_raw_amenities ?d (Some ''Solar panels installed.'') = ?toks"
    by (simp add: collect_raw_amenities_def token_parts_def str_eval)
  have rv: "reverse_vocab ?V =
              [(''garage'', ''garage''), (''two car garage'', ''garage''), (''pool'', ''pool''),
               (''swimming pool'', ''pool''), (''solar'', ''solar''), (''solar panels'', ''solar'')]"
    by (simp add: am_eval str_eval)
  have san: "map sanitize ?toks =
               [''123 main st'', ''springfield'', ''il'', ''62701'', ''2 5'', ''1'', ''234 sqft'',
                ''0 5'', ''350'', ''000'', ''single family'', ''garage'', ''pool'',
                ''solar panels installed'', ''solar panels installed'']"
    by (simp add: am_eval str_eval)
  have sw: "map (\<lambda>syn. search_word syn ''solar panels installed'')
              [''garage'', ''two car garage'', ''pool'', ''swimming pool'', ''solar'',
               ''solar panels'']
            = [False, False, False, False, True, True]"
    by (simp add: am_eval str_eval)
  have am: "normalize_amenities ?toks ?V (Some ''Solar panels installed.'')
              = [''garage'', ''pool'', ''solar'']"
    using san sw by (simp add: normalize_amenities_def rv Let_def)
  have ml: "py_str pyrepr
              (py_or (search ?d (\<lambda>k. str_lower k \<in> {''mls_id'', ''mlsid'', ''listingid'', ''id''}))
                 (JStr [])) = []"
    by (simp add: py_str_def py_or_def truthy_def str_eval)
  show ?thesis
    by (simp only: to_listing_row_def Let_def d lot nums addr pt toks am ml bind_raise_def
          sum.case prod.case list.simps if_True if_False simp_thms)
qed

section \<open>Properties of the sanitizer\<close>


























end
